theory Spec2Isabelle
  imports Complex_Main "HOL-Library.Extended_Nat" "HOL-Library.Sublist" "HOL-Library.Multiset"
begin

section \<open>Python values used by laserscape\<close>

text \<open>
  A Python \<open>str\<close> is modelled as a HOL \<open>string\<close>, each \<open>char\<close> read as one code point
  below 256 (Latin-1). Exceptions are values of \<open>py_error\<close>; a function that may raise
  returns a sum, \<open>Inl\<close> carrying the exception.
\<close>

datatype py_error =
    AttributeError      \<comment> \<open>\<open>matches.group(...)\<close> on \<open>None\<close>\<close>
  | ValueError          \<comment> \<open>raised explicitly by the source\<close>
  | NameError           \<comment> \<open>use of a name the module never binds\<close>
  | ComparisonRaised    \<comment> \<open>\<open>list.sort\<close> left by an exception of \<open>Layer.__lt__\<close>\<close>
  | FileNotFoundError   \<comment> \<open>the source document does not exist\<close>
  | FileExistsError     \<comment> \<open>a render refused to overwrite\<close>

text \<open>
  \<open>str.lower()\<close> on code points below 256: the ASCII capitals and the Latin-1 capitals
  (\<open>0xC0\<close> to \<open>0xDE\<close> without the multiplication sign \<open>0xD7\<close>) move up by 32, every other
  code point is its own lower case.
\<close>

definition lower_char :: "char \<Rightarrow> char" where
  "lower_char c = (let n = (of_char c :: nat) in
     if (65 \<le> n \<and> n \<le> 90) \<or> (192 \<le> n \<and> n \<le> 222 \<and> n \<noteq> 215)
     then char_of (n + 32) else c)"

definition lower :: "string \<Rightarrow> string" where
  "lower s = map lower_char s"

text \<open>\<open>s.startswith(p)\<close>.\<close>

definition startswith :: "string \<Rightarrow> string \<Rightarrow> bool" where
  "startswith s p = (take (length p) s = p)"

text \<open>
  The regular expression class \<open>\d\<close>: among the code points below 256 the decimal digits
  are \<open>0\<close> to \<open>9\<close>.
\<close>

definition is_digit :: "char \<Rightarrow> bool" where
  "is_digit c = (c \<in> set ''0123456789'')"

text \<open>
  \<open>int(ds)\<close> for a string of decimal digits. The digits follow a separator character that
  the source cuts off with \<open>m[1:]\<close>, so the value is never negative. Python's integers are
  unbounded; a bound that an interpreter may set on the number of digits it converts is not
  modelled.
\<close>

definition digit_value :: "char \<Rightarrow> nat" where
  "digit_value c = of_char c - 48"

definition py_int :: "string \<Rightarrow> nat" where
  "py_int ds = foldl (\<lambda>n c. 10 * n + digit_value c) 0 ds"


section \<open>The label grammar: \<open>Layer.label_regex\<close>\<close>

text \<open>
  \<^verbatim>\<open>(engrave|cut)(?P<priority>-\d+)?(?P<passes>x\d+)?(?P<cut_speed>f\d+)?(?P<laser_power>s\d+)?\<close>

  A match object keeps the text of each named group, \<open>None\<close> for a group that took no part
  in the match.
\<close>

record re_match =
  group_priority :: "string option"
  group_passes :: "string option"
  group_cut_speed :: "string option"
  group_laser_power :: "string option"

text \<open>
  One optional group \<open>(c\d+)?\<close> at the head of \<open>s\<close>: the group's text and the rest of the
  input. Both quantifiers are greedy, and everything that follows in the pattern is optional
  as well, so the first attempt of the matcher is the match: the separator and the longest
  run of digits when at least one digit follows the separator, nothing otherwise.
\<close>

fun optional_group :: "char \<Rightarrow> string \<Rightarrow> string option \<times> string" where
  "optional_group c [] = (None, [])"
| "optional_group c (x # s) =
     (if x = c \<and> takeWhile is_digit s \<noteq> []
      then (Some (x # takeWhile is_digit s), dropWhile is_digit s)
      else (None, x # s))"

definition match_groups :: "string \<Rightarrow> re_match" where
  "match_groups s =
     (let (g1, s1) = optional_group CHR ''-'' s;
          (g2, s2) = optional_group CHR ''x'' s1;
          (g3, s3) = optional_group CHR ''f'' s2;
          (g4, s4) = optional_group CHR ''s'' s3
      in \<lparr>group_priority = g1, group_passes = g2,
          group_cut_speed = g3, group_laser_power = g4\<rparr>)"

text \<open>The pattern tried at the head of \<open>s\<close>; the alternation tries \<open>engrave\<close> first.\<close>

definition match_at :: "string \<Rightarrow> re_match option" where
  "match_at s =
     (if startswith s ''engrave'' then Some (match_groups (drop 7 s))
      else if startswith s ''cut'' then Some (match_groups (drop 3 s))
      else None)"

text \<open>\<open>label_regex.search(s)\<close>: the match at the leftmost position that has one.\<close>

fun label_regex_search :: "string \<Rightarrow> re_match option" where
  "label_regex_search [] = None"
| "label_regex_search (c # s) =
     (case match_at (c # s) of
        Some m \<Rightarrow> Some m
      | None \<Rightarrow> label_regex_search s)"


section \<open>\<open>class Layer\<close>\<close>

text \<open>
  A \<open>Layer\<close> wraps a layer of the document and reads its \<open>ID\<close> and its \<open>label\<close>
  from it.
\<close>

record layer =
  ID :: string
  label :: string

definition is_engrave_layer :: "layer \<Rightarrow> bool" where
  "is_engrave_layer l = startswith (lower (label l)) ''engrave''"

definition is_cut_layer :: "layer \<Rightarrow> bool" where
  "is_cut_layer l = startswith (lower (label l)) ''cut''"

text \<open>
  \<open>Layer._parse_priority\<close>: \<open>matches\<close> is \<open>None\<close> when the search finds nothing, and
  \<open>matches.group\<close> then raises \<open>AttributeError\<close>.
\<close>

definition parse_priority :: "layer \<Rightarrow> py_error + nat" where
  "parse_priority l =
     (case label_regex_search (lower (label l)) of
        None \<Rightarrow> Inl AttributeError
      | Some matches \<Rightarrow>
          (case group_priority matches of
             None \<Rightarrow> Inl ValueError
           | Some m \<Rightarrow> Inr (py_int (tl m))))"

text \<open>
  \<open>Layer.priority\<close>: only \<open>ValueError\<close> is caught. \<open>float("inf")\<close> is \<open>\<infinity>\<close>: Python orders
  every integer below it.
\<close>

definition priority :: "layer \<Rightarrow> py_error + enat" where
  "priority l =
     (case parse_priority l of
        Inr n \<Rightarrow> Inr (enat n)
      | Inl ValueError \<Rightarrow> Inr \<infinity>
      | Inl e \<Rightarrow> Inl e)"

text \<open>\<open>Layer._parse_passes\<close> and \<open>Layer.passes\<close>.\<close>

definition parse_passes :: "layer \<Rightarrow> py_error + nat" where
  "parse_passes l =
     (case label_regex_search (lower (label l)) of
        None \<Rightarrow> Inl AttributeError
      | Some matches \<Rightarrow>
          (case group_passes matches of
             None \<Rightarrow> Inl ValueError
           | Some m \<Rightarrow> Inr (py_int (tl m))))"

definition passes :: "layer \<Rightarrow> py_error + nat" where
  "passes l =
     (case parse_passes l of
        Inr n \<Rightarrow> Inr n
      | Inl ValueError \<Rightarrow> Inr 1
      | Inl e \<Rightarrow> Inl e)"


text \<open>
  \<open>Layer.__lt__\<close>. \<open>_is_valid_operand\<close> is \<open>hasattr(other, "priority")\<close>, which reads the
  property and answers \<open>False\<close> when the read raises \<open>AttributeError\<close>; \<open>__lt__\<close> then
  returns \<open>NotImplemented\<close>.
\<close>

datatype lt_result = NotImplemented | Bool bool

definition is_valid_operand :: "layer \<Rightarrow> py_error + bool" where
  "is_valid_operand other =
     (case priority other of
        Inr p \<Rightarrow> Inr True
      | Inl AttributeError \<Rightarrow> Inr False
      | Inl e \<Rightarrow> Inl e)"

definition layer_lt :: "layer \<Rightarrow> layer \<Rightarrow> py_error + lt_result" where
  "layer_lt self other =
     (case is_valid_operand other of
        Inl e \<Rightarrow> Inl e
      | Inr False \<Rightarrow> Inr NotImplemented
      | Inr True \<Rightarrow>
          (case priority self of
             Inl e \<Rightarrow> Inl e
           | Inr p \<Rightarrow>
               (case priority other of
                  Inl e \<Rightarrow> Inl e
                | Inr q \<Rightarrow> Inr (Bool (p < q)))))"


section \<open>\<open>split_layers\<close>\<close>

text \<open>
  \<open>list.sort()\<close> on a list of \<open>Layer\<close>s. Python's sort is stable and compares with \<open>__lt__\<close>
  only, and \<open>__lt__\<close> orders by the priority, so on layers whose priority can be read the
  result is the stable sort by that key. A list of fewer than two elements is returned
  without any comparison. In a longer list every element takes part in a comparison, and a
  comparison with a layer whose priority cannot be read does not come back: \<open>__lt__\<close> raises,
  or answers \<open>NotImplemented\<close>, after which the reflected comparison raises or the operator
  itself does. The model does not track which of these exceptions leaves the sort.
\<close>

definition sort_priority :: "layer \<Rightarrow> enat" where
  "sort_priority l = (case priority l of Inr p \<Rightarrow> p | Inl e \<Rightarrow> \<infinity>)"

definition list_sort :: "layer list \<Rightarrow> py_error + layer list" where
  "list_sort xs =
     (if 2 \<le> length xs \<and> list_ex (\<lambda>l. isl (priority l)) xs
      then Inl ComparisonRaised
      else Inr (sort_key sort_priority xs))"

text \<open>The body of the loop of \<open>split_layers\<close>: the cut test comes first.\<close>

fun split_layers_step ::
  "layer list \<times> layer list \<times> layer list \<Rightarrow> layer \<Rightarrow> layer list \<times> layer list \<times> layer list" where
  "split_layers_step (engrave_layers, cut_layers, ignored_layers) layer =
     (if is_cut_layer layer then (engrave_layers, cut_layers @ [layer], ignored_layers)
      else if is_engrave_layer layer then (engrave_layers @ [layer], cut_layers, ignored_layers)
      else (engrave_layers, cut_layers, ignored_layers @ [layer]))"

definition split_layers ::
  "layer list \<Rightarrow> py_error + (layer list \<times> layer list \<times> layer list)" where
  "split_layers layers =
     (case foldl split_layers_step ([], [], []) layers of
        (engrave_layers, cut_layers, ignored_layers) \<Rightarrow>
          (case list_sort engrave_layers of
             Inl e \<Rightarrow> Inl e
           | Inr engrave_sorted \<Rightarrow>
               (case list_sort cut_layers of
                  Inl e \<Rightarrow> Inl e
                | Inr cut_sorted \<Rightarrow> Inr (engrave_sorted, cut_sorted, ignored_layers))))"

section \<open>The patched instruction compiler\<close>

text \<open>
  laserscape replaces three methods of the external compiler library: \<open>set_laser_power\<close> of
  the G-code interface, \<open>append_line_chain\<close> and \<open>append_curves\<close> of the compiler. What the
  replacements call in the library is a parameter of the model: the instruction texts, the
  test that two points are further apart than the tolerance, \<open>linear_map\<close>, and the delay
  the constructor gives a compiler. Numbers are real numbers, so the floating-point value
  that is not a number stays outside the model.
\<close>

type_synonym point = "real \<times> real"

text \<open>A line segment with its \<open>start\<close> and its \<open>end\<close>; a line chain is a list of them.\<close>

type_synonym line = "point \<times> point"

record svg_to_gcode =
  laser_off :: string
  set_movement_speed :: "real \<Rightarrow> string"
  linear_move :: "real \<Rightarrow> real \<Rightarrow> string"
  dwell :: "real \<Rightarrow> string"
  linear_map :: "real \<Rightarrow> real \<Rightarrow> real \<Rightarrow> real"
  out_of_tolerance :: "point \<Rightarrow> point \<Rightarrow> bool"
    \<comment> \<open>\<open>abs(position - start) > TOLERANCES["operation"]\<close>\<close>
  default_dwell_time :: real

text \<open>\<open>str(n)\<close> for an integer, as the f-string prints it.\<close>

fun str_nat :: "nat \<Rightarrow> string" where
  "str_nat n =
     (if n < 10 then [char_of (48 + n)]
      else str_nat (n div 10) @ [char_of (48 + n mod 10)])"

definition str_int :: "int \<Rightarrow> string" where
  "str_int i = (if i < 0 then CHR ''-'' # str_nat (nat (- i)) else str_nat (nat i))"

text \<open>\<open>patched_set_laser_power\<close>.\<close>

definition patched_set_laser_power :: "svg_to_gcode \<Rightarrow> real \<Rightarrow> py_error + string" where
  "patched_set_laser_power lib power' =
     (if power' < 0 \<or> power' > 1 then Inl ValueError
      else Inr (''M3 S'' @ str_int \<lfloor>linear_map lib 0 255 power'\<rfloor> @ '';''))"

text \<open>
  The compiler object: the position of its interface (\<open>None\<close> until the interface has
  moved), the instructions collected so far, and its settings.
\<close>

record compiler =
  position :: "point option"
  body :: "string list"
  movement_speed :: real
  cutting_speed :: real
  dwell_time :: real

text \<open>
  \<open>patched_append_line_chain\<close>. The module never imports \<open>warnings\<close>, so the statement
  \<open>warnings.warn(...)\<close> of the empty-chain branch raises \<open>NameError\<close>. The elements of the
  list \<open>code\<close> are evaluated from left to right, \<open>set_laser_power\<close> last; when it raises, the
  method is left before \<open>self.body.extend(code)\<close>. A move of the interface leaves it at the
  target of the move.
\<close>

definition patched_append_line_chain ::
  "svg_to_gcode \<Rightarrow> compiler \<Rightarrow> line list \<Rightarrow> real \<Rightarrow> py_error + compiler" where
  "patched_append_line_chain lib self line_chain laser_power =
     (if length line_chain = 0 then Inl NameError
      else
        let start = fst (hd line_chain);
            moves = map (\<lambda>line. linear_move lib (fst (snd line)) (snd (snd line))) line_chain;
            final = Some (snd (last line_chain))
        in if (case position self of None \<Rightarrow> True | Some p \<Rightarrow> out_of_tolerance lib p start)
           then
             (case patched_set_laser_power lib laser_power of
                Inl e \<Rightarrow> Inl e
              | Inr power_code \<Rightarrow>
                  let code = [laser_off lib, set_movement_speed lib (movement_speed self),
                              linear_move lib (fst start) (snd start),
                              set_movement_speed lib (cutting_speed self), power_code];
                      code = (if dwell_time self > 0 then dwell lib (dwell_time self) # code
                              else code)
                  in Inr (self\<lparr>position := final, body := body self @ code @ moves\<rparr>))
           else Inr (self\<lparr>position := final, body := body self @ moves\<rparr>))"

text \<open>
  \<open>patched_append_curves\<close>. A curve is given by the line chain that
  \<open>LineSegmentChain.line_segment_approximation\<close> returns for it.
\<close>

fun patched_append_curves ::
  "svg_to_gcode \<Rightarrow> compiler \<Rightarrow> line list list \<Rightarrow> real \<Rightarrow> py_error + compiler" where
  "patched_append_curves lib self [] laser_power = Inr self"
| "patched_append_curves lib self (curve # curves) laser_power =
     (case patched_append_line_chain lib self curve laser_power of
        Inl e \<Rightarrow> Inl e
      | Inr self' \<Rightarrow> patched_append_curves lib self' curves laser_power)"

text \<open>
  \<open>to_gcode\<close>, from the curves that \<open>parse_file\<close> returns. The last statement,
  \<open>compile_to_file("drawing.gcode", passes=2)\<close>, is the only one that writes: the model
  returns the compiler that statement is called on, and an exception otherwise, raised with
  nothing written.
\<close>

definition to_gcode :: "svg_to_gcode \<Rightarrow> line list list \<Rightarrow> py_error + compiler" where
  "to_gcode lib curves =
     (let gcode_compiler = \<lparr>position = None, body = [], movement_speed = 1000,
                             cutting_speed = 300, dwell_time = default_dwell_time lib\<rparr>
      in patched_append_curves lib gcode_compiler curves 5)"

text \<open>
  One choice of the library parameters, for evaluating the compiler on given inputs.
\<close>

definition library_example :: svg_to_gcode where
  "library_example =
     \<lparr>laser_off = ''M5;'',
      set_movement_speed = (\<lambda>speed. ''G1 F'' @ str_int \<lfloor>speed\<rfloor> @ '';''),
      linear_move = (\<lambda>x y. ''G1 X'' @ str_int \<lfloor>x\<rfloor> @ '' Y'' @ str_int \<lfloor>y\<rfloor> @ '';''),
      dwell = (\<lambda>t. ''G4 P'' @ str_int \<lfloor>t\<rfloor> @ '';''),
      linear_map = (\<lambda>lo hi t. (hi - lo) * t + lo),
      out_of_tolerance = (\<lambda>p q. p \<noteq> q),
      default_dwell_time = 0\<rparr>"

section \<open>\<open>split\<close>: one file per layer\<close>

text \<open>
  A document is the list of its layers. The state the split pipeline works on has the
  \<open>Canvas\<close> objects in memory (an object is addressed by its index), the files, and a record
  of the paths \<open>render\<close> has been called with, kept to speak about the writes that were
  attempted. The lines that \<open>split\<close> prints are not modelled.
\<close>

type_synonym canvas = "layer list"

type_synonym path = string

record world =
  objects :: "canvas list"
  files :: "path \<rightharpoonup> canvas"
  rendered :: "path list"

text \<open>
  A \<open>PurePath\<close> with its \<open>parent\<close> and its \<open>name\<close>; \<open>d / s\<close> puts a separator between the
  two texts. pathlib drops repeated separators and \<open>.\<close> components when it compares paths;
  a path here is the text as written.
\<close>

record pure_path =
  parent :: path
  name :: string

definition joinpath :: "path \<Rightarrow> string \<Rightarrow> path" where
  "joinpath d s = d @ ''/'' @ s"

definition rfind :: "string \<Rightarrow> char \<Rightarrow> nat option" where
  "rfind s c =
     (if c \<in> set s then Some (length s - 1 - length (takeWhile (\<lambda>x. x \<noteq> c) (rev s)))
      else None)"

text \<open>\<open>PurePath.stem\<close>: the name without its last suffix.\<close>

definition stem :: "pure_path \<Rightarrow> string" where
  "stem p =
     (case rfind (name p) CHR ''.'' of
        None \<Rightarrow> name p
      | Some i \<Rightarrow> if 0 < i \<and> i < length (name p) - 1 then take i (name p) else name p)"

text \<open>\<open>Canvas(path)\<close> reads the document of a file into a new object.\<close>

definition Canvas :: "pure_path \<Rightarrow> world \<Rightarrow> py_error + (nat \<times> world)" where
  "Canvas p w =
     (case files w (joinpath (parent p) (name p)) of
        None \<Rightarrow> Inl FileNotFoundError
      | Some doc \<Rightarrow> Inr (length (objects w), w\<lparr>objects := objects w @ [doc]\<rparr>))"

text \<open>\<open>copy.deepcopy(canvas)\<close>: a new object with the same layers.\<close>

definition deepcopy :: "nat \<Rightarrow> world \<Rightarrow> nat \<times> world" where
  "deepcopy canvas w = (length (objects w), w\<lparr>objects := objects w @ [objects w ! canvas]\<rparr>)"

text \<open>\<open>l.delete()\<close> takes the layer \<open>l\<close> out of the canvas it belongs to.\<close>

definition delete :: "nat \<Rightarrow> layer \<Rightarrow> world \<Rightarrow> world" where
  "delete canvas l w = w\<lparr>objects := (objects w)[canvas := remove1 l (objects w ! canvas)]\<rparr>"

text \<open>
  \<open>copy_with_only_this_layer\<close>. The loop runs over the list that \<open>new_canva.layers()\<close>
  returned before the first deletion.
\<close>

definition copy_with_only_this_layer :: "nat \<Rightarrow> layer \<Rightarrow> world \<Rightarrow> nat \<times> world" where
  "copy_with_only_this_layer canvas layer w =
     (case deepcopy canvas w of
        (new_canva, w1) \<Rightarrow>
          (new_canva,
           foldl (\<lambda>w' l. if ID l \<noteq> ID layer then delete new_canva l w' else w')
             w1 (objects w1 ! new_canva)))"

text \<open>
  \<open>Canvas.render(path, overwrite)\<close> belongs to the document library and is a parameter of
  \<open>split\<close>: from the document, the path, the flag and the files it gives the new files, or
  raises.
\<close>

type_synonym render = "canvas \<Rightarrow> path \<Rightarrow> bool \<Rightarrow> (path \<rightharpoonup> canvas) \<Rightarrow> py_error + (path \<rightharpoonup> canvas)"


text \<open>The value of the variable \<open>output_path\<close> in the two loops of \<open>split\<close>.\<close>

definition output_path :: "path \<Rightarrow> string \<Rightarrow> layer \<Rightarrow> path" where
  "output_path output_directory base_name layer =
     joinpath output_directory (base_name @ ''-'' @ label layer @ ''.svg'')"

text \<open>
  The two \<open>for\<close> loops of \<open>split\<close> have the same body and differ in the list they run over.
  An exception of \<open>render\<close> is not caught, so it ends the loop and \<open>split\<close>.
\<close>

fun render_layers ::
  "render \<Rightarrow> nat \<Rightarrow> path \<Rightarrow> string \<Rightarrow> bool \<Rightarrow> layer list \<Rightarrow> world \<Rightarrow> py_error option \<times> world" where
  "render_layers render canvas output_directory base_name overwrite [] w = (None, w)"
| "render_layers render canvas output_directory base_name overwrite (layer # layers) w =
     (case copy_with_only_this_layer canvas layer w of
        (c, w1) \<Rightarrow>
          let w2 = w1\<lparr>rendered := rendered w1 @ [output_path output_directory base_name layer]\<rparr>
          in (case render (objects w2 ! c) (output_path output_directory base_name layer)
                     overwrite (files w2) of
                Inl e \<Rightarrow> (Some e, w2)
              | Inr fs \<Rightarrow>
                  render_layers render canvas output_directory base_name overwrite layers
                    (w2\<lparr>files := fs\<rparr>)))"

definition split ::
  "render \<Rightarrow> pure_path \<Rightarrow> bool \<Rightarrow> path option \<Rightarrow> world \<Rightarrow> py_error option \<times> world" where
  "split render inkscape_file_path overwrite output_directory w =
     (let output_directory =
            (case output_directory of None \<Rightarrow> parent inkscape_file_path | Some d \<Rightarrow> d);
          base_name = stem inkscape_file_path
      in case Canvas inkscape_file_path w of
           Inl e \<Rightarrow> (Some e, w)
         | Inr (canvas, w1) \<Rightarrow>
             (case split_layers (objects w1 ! canvas) of
                Inl e \<Rightarrow> (Some e, w1)
              | Inr (engrave, cut_layers, ignored) \<Rightarrow>
                  (case render_layers render canvas output_directory base_name overwrite
                          engrave w1 of
                     (Some e, w2) \<Rightarrow> (Some e, w2)
                   | (None, w2) \<Rightarrow>
                       render_layers render canvas output_directory base_name overwrite
                         cut_layers w2)))"

section \<open>Documents for evaluating \<open>split\<close>\<close>







section \<open>Properties of the label grammar and of the partition\<close>

subsection \<open>Strings\<close>

lemma startswith_prefix: "startswith s p \<longleftrightarrow> prefix p s"
proof
  assume "startswith s p"
  then have "s = p @ drop (length p) s"
    unfolding startswith_def by (metis append_take_drop_id)
  then show "prefix p s" by (metis prefixI)
next
  assume "prefix p s"
  then obtain zs where "s = p @ zs" by (auto simp: prefix_def)
  then show "startswith s p" by (simp add: startswith_def)
qed

lemma startswith_append: "startswith (p @ rest) p"
  by (simp add: startswith_def)

lemma not_both_words: "\<not> (startswith s ''engrave'' \<and> startswith s ''cut'')"
  by (cases s) (auto simp: startswith_def)

subsection \<open>The regular expression\<close>




lemma match_at_None: "match_at s = None \<longleftrightarrow> \<not> prefix ''engrave'' s \<and> \<not> prefix ''cut'' s"
  by (simp add: match_at_def startswith_prefix)

lemma search_None:
  "label_regex_search s = None \<longleftrightarrow> \<not> sublist ''engrave'' s \<and> \<not> sublist ''cut'' s"
proof (induction s)
  case Nil
  show ?case by simp
next
  case (Cons c s)
  have split_e: "sublist ''engrave'' (c # s) \<longleftrightarrow> prefix ''engrave'' (c # s) \<or> sublist ''engrave'' s"
    by (rule sublist_Cons_right)
  have split_c: "sublist ''cut'' (c # s) \<longleftrightarrow> prefix ''cut'' (c # s) \<or> sublist ''cut'' s"
    by (rule sublist_Cons_right)
  show ?case
  proof (cases "match_at (c # s)")
    case None
    then have "label_regex_search (c # s) = label_regex_search s"
      by simp
    moreover from None have "\<not> prefix ''engrave'' (c # s) \<and> \<not> prefix ''cut'' (c # s)"
      using match_at_None [of "c # s"] by blast
    ultimately show ?thesis
      using Cons.IH split_e split_c by metis
  next
    case (Some m)
    then have "label_regex_search (c # s) \<noteq> None"
      by simp
    moreover from Some have "prefix ''engrave'' (c # s) \<or> prefix ''cut'' (c # s)"
      using match_at_None [of "c # s"] by (metis option.distinct(1))
    ultimately show ?thesis
      using split_e split_c by metis
  qed
qed




subsection \<open>Reading priority and passes\<close>

lemma priority_of_search:
  "priority l =
     (case label_regex_search (lower (label l)) of
        None \<Rightarrow> Inl AttributeError
      | Some m \<Rightarrow> (case group_priority m of None \<Rightarrow> Inr \<infinity> | Some g \<Rightarrow> Inr (enat (py_int (tl g)))))"
  by (simp add: priority_def parse_priority_def split: option.splits)

lemma passes_of_search:
  "passes l =
     (case label_regex_search (lower (label l)) of
        None \<Rightarrow> Inl AttributeError
      | Some m \<Rightarrow> (case group_passes m of None \<Rightarrow> Inr 1 | Some g \<Rightarrow> Inr (py_int (tl g))))"
  by (simp add: passes_def parse_passes_def split: option.splits)

lemma priority_Inl_iff:
  "isl (priority l) \<longleftrightarrow> label_regex_search (lower (label l)) = None"
  by (simp add: priority_of_search split: option.splits)

lemma role_layer_matches:
  assumes "is_engrave_layer l \<or> is_cut_layer l"
  shows "label_regex_search (lower (label l)) \<noteq> None"
proof -
  from assms have "prefix ''engrave'' (lower (label l)) \<or> prefix ''cut'' (lower (label l))"
    by (simp add: is_engrave_layer_def is_cut_layer_def startswith_prefix)
  then have "sublist ''engrave'' (lower (label l)) \<or> sublist ''cut'' (lower (label l))"
    by (blast intro: prefix_imp_sublist)
  then show ?thesis
    by (simp add: search_None)
qed

lemma role_layer_priority:
  assumes "is_engrave_layer l \<or> is_cut_layer l"
  shows "priority l = Inr (sort_priority l)"
proof -
  from assms have "\<not> isl (priority l)"
    by (simp add: priority_Inl_iff role_layer_matches)
  then show ?thesis
    by (cases "priority l") (simp_all add: sort_priority_def)
qed

lemma layer_lt_role_layers:
  assumes "is_engrave_layer a \<or> is_cut_layer a" and "is_engrave_layer b \<or> is_cut_layer b"
  shows "layer_lt a b = Inr (Bool (sort_priority a < sort_priority b))"
  by (simp add: layer_lt_def is_valid_operand_def role_layer_priority [OF assms(1)]
      role_layer_priority [OF assms(2)])

subsection \<open>The loop and the two sorts\<close>

lemma not_both_roles: "\<not> (is_engrave_layer l \<and> is_cut_layer l)"
  by (simp add: is_engrave_layer_def is_cut_layer_def not_both_words)

lemma foldl_split_layers_step:
  "foldl split_layers_step (e, c, i) ls =
     (e @ filter is_engrave_layer ls, c @ filter is_cut_layer ls,
      i @ filter (\<lambda>l. \<not> is_engrave_layer l \<and> \<not> is_cut_layer l) ls)"
proof (induction ls arbitrary: e c i)
  case Nil
  show ?case by simp
next
  case (Cons l ls)
  show ?case
    using not_both_roles [of l] by (auto simp: Cons.IH)
qed

lemma list_sort_role_layers:
  assumes "\<And>l. l \<in> set xs \<Longrightarrow> is_engrave_layer l \<or> is_cut_layer l"
  shows "list_sort xs = Inr (sort_key sort_priority xs)"
proof -
  have "\<not> list_ex (\<lambda>l. isl (priority l)) xs"
    using assms by (auto simp: list_ex_iff priority_Inl_iff role_layer_matches)
  then show ?thesis
    by (simp add: list_sort_def)
qed

lemma split_layers_eq:
  "split_layers ls =
     Inr (sort_key sort_priority (filter is_engrave_layer ls),
          sort_key sort_priority (filter is_cut_layer ls),
          filter (\<lambda>l. \<not> is_engrave_layer l \<and> \<not> is_cut_layer l) ls)"
proof -
  have e: "list_sort (filter is_engrave_layer ls) = Inr (sort_key sort_priority (filter is_engrave_layer ls))"
    by (rule list_sort_role_layers) simp
  have c: "list_sort (filter is_cut_layer ls) = Inr (sort_key sort_priority (filter is_cut_layer ls))"
    by (rule list_sort_role_layers) simp
  show ?thesis
    by (simp add: split_layers_def foldl_split_layers_step e c)
qed

lemma mset_three_filters:
  "mset (filter is_engrave_layer ls) + mset (filter is_cut_layer ls)
     + mset (filter (\<lambda>l. \<not> is_engrave_layer l \<and> \<not> is_cut_layer l) ls) = mset ls"
proof (induction ls)
  case Nil
  show ?case by simp
next
  case (Cons l ls)
  then show ?case
    using not_both_roles [of l] by auto
qed

lemma sorted_bucket_positions:
  assumes "i < length xs" and "j < length xs"
    and "sort_priority (sort_key sort_priority xs ! i) < sort_priority (sort_key sort_priority xs ! j)"
  shows "i < j"
proof (rule ccontr)
  let ?b = "sort_key sort_priority xs"
  assume "\<not> i < j"
  then have "j \<le> i" by simp
  moreover have "sorted (map sort_priority ?b)"
    by (rule sorted_sort_key)
  ultimately have "map sort_priority ?b ! j \<le> map sort_priority ?b ! i"
    using assms(1) by (simp add: sorted_iff_nth_mono)
  then have "sort_priority (?b ! j) \<le> sort_priority (?b ! i)"
    using assms(1,2) by simp
  with assms(3) show False by simp
qed

lemma stable_bucket:
  assumes "\<And>l. l \<in> set xs \<Longrightarrow> is_engrave_layer l \<or> is_cut_layer l"
  shows "filter (\<lambda>l. priority l = Inr k) (sort_key sort_priority xs)
       = filter (\<lambda>l. priority l = Inr k) xs"
proof -
  have "filter (\<lambda>l. priority l = Inr k) (sort_key sort_priority xs)
      = filter (\<lambda>l. sort_priority l = k) (sort_key sort_priority xs)"
    by (rule filter_cong) (use assms in \<open>auto simp: role_layer_priority\<close>)
  also have "\<dots> = filter (\<lambda>l. sort_priority l = k) xs"
    by (rule sort_key_stable)
  also have "\<dots> = filter (\<lambda>l. priority l = Inr k) xs"
    by (rule filter_cong) (use assms in \<open>auto simp: role_layer_priority\<close>)
  finally show ?thesis .
qed

section \<open>Properties of \<open>split\<close>\<close>

subsection \<open>Copying a canvas and deleting the other layers\<close>







subsection \<open>The render loop\<close>





subsection \<open>The stem of a name\<close>





subsection \<open>\<open>split\<close> as a whole\<close>






section \<open>The classifier and the partition\<close>



text \<open>
  Claim C1. A layer goes to the engrave bucket when its lower-cased label starts with
  \<open>engrave\<close>, to the cut bucket when it starts with \<open>cut\<close>, and to the ignored bucket
  otherwise: for one turn of the loop from any buckets, and for the three buckets that
  \<open>split_layers\<close> returns on any list of layers. The labels \<open>ENGRAVE-2\<close>, \<open>CuT-42\<close> and
  \<open>-foo\<close> go to engrave, cut and ignored.
\<close>

theorem classifier_roles:
  "split_layers_step (e, c, i) l =
     (if startswith (lower (label l)) ''engrave'' then (e @ [l], c, i)
      else if startswith (lower (label l)) ''cut'' then (e, c @ [l], i)
      else (e, c, i @ [l]))
   \<and> (\<exists>engrave_layers cut_layers ignored_layers. split_layers ls = Inr (engrave_layers, cut_layers, ignored_layers)
        \<and> set engrave_layers = {l \<in> set ls. startswith (lower (label l)) ''engrave''}
        \<and> set cut_layers = {l \<in> set ls. startswith (lower (label l)) ''cut''}
        \<and> set ignored_layers = {l \<in> set ls. \<not> startswith (lower (label l)) ''engrave''
                                          \<and> \<not> startswith (lower (label l)) ''cut''})
   \<and> split_layers [\<lparr>ID = x, label = ''ENGRAVE-2''\<rparr>] = Inr ([\<lparr>ID = x, label = ''ENGRAVE-2''\<rparr>], [], [])
   \<and> split_layers [\<lparr>ID = x, label = ''CuT-42''\<rparr>] = Inr ([], [\<lparr>ID = x, label = ''CuT-42''\<rparr>], [])
   \<and> split_layers [\<lparr>ID = x, label = ''-foo''\<rparr>] = Inr ([], [], [\<lparr>ID = x, label = ''-foo''\<rparr>])"
proof (intro conjI)
  show "split_layers_step (e, c, i) l =
     (if startswith (lower (label l)) ''engrave'' then (e @ [l], c, i)
      else if startswith (lower (label l)) ''cut'' then (e, c @ [l], i)
      else (e, c, i @ [l]))"
    using not_both_roles [of l] by (auto simp: is_engrave_layer_def is_cut_layer_def)
next
  show "\<exists>engrave_layers cut_layers ignored_layers. split_layers ls = Inr (engrave_layers, cut_layers, ignored_layers)
        \<and> set engrave_layers = {l \<in> set ls. startswith (lower (label l)) ''engrave''}
        \<and> set cut_layers = {l \<in> set ls. startswith (lower (label l)) ''cut''}
        \<and> set ignored_layers = {l \<in> set ls. \<not> startswith (lower (label l)) ''engrave''
                                          \<and> \<not> startswith (lower (label l)) ''cut''}"
    by (simp add: split_layers_eq is_engrave_layer_def is_cut_layer_def)
next
  have "is_engrave_layer \<lparr>ID = x, label = ''ENGRAVE-2''\<rparr>"
    by code_simp
  then show "split_layers [\<lparr>ID = x, label = ''ENGRAVE-2''\<rparr>] = Inr ([\<lparr>ID = x, label = ''ENGRAVE-2''\<rparr>], [], [])"
    using not_both_roles [of "\<lparr>ID = x, label = ''ENGRAVE-2''\<rparr>"] by (simp add: split_layers_eq)
next
  have "is_cut_layer \<lparr>ID = x, label = ''CuT-42''\<rparr>"
    by code_simp
  then show "split_layers [\<lparr>ID = x, label = ''CuT-42''\<rparr>] = Inr ([], [\<lparr>ID = x, label = ''CuT-42''\<rparr>], [])"
    using not_both_roles [of "\<lparr>ID = x, label = ''CuT-42''\<rparr>"] by (simp add: split_layers_eq)
next
  have "\<not> is_cut_layer \<lparr>ID = x, label = ''-foo''\<rparr>" "\<not> is_engrave_layer \<lparr>ID = x, label = ''-foo''\<rparr>"
    by code_simp+
  then show "split_layers [\<lparr>ID = x, label = ''-foo''\<rparr>] = Inr ([], [], [\<lparr>ID = x, label = ''-foo''\<rparr>])"
    by (simp add: split_layers_eq)
qed

text \<open>
  Claim C2. On every list of layers \<open>split_layers\<close> returns three lists, without raising.
  Their lengths add up to the length of the input, together they hold every input layer as
  often as the input does, no layer is in two of them, and the empty input gives three empty
  lists.
\<close>

theorem split_layers_partition:
  "(\<exists>engrave_layers cut_layers ignored_layers. split_layers ls = Inr (engrave_layers, cut_layers, ignored_layers)
      \<and> length engrave_layers + length cut_layers + length ignored_layers = length ls
      \<and> mset engrave_layers + mset cut_layers + mset ignored_layers = mset ls
      \<and> set engrave_layers \<inter> set cut_layers = {} \<and> set engrave_layers \<inter> set ignored_layers = {}
      \<and> set cut_layers \<inter> set ignored_layers = {})
   \<and> split_layers [] = Inr ([], [], [])"
proof -
  let ?e = "sort_key sort_priority (filter is_engrave_layer ls)"
  let ?c = "sort_key sort_priority (filter is_cut_layer ls)"
  let ?i = "filter (\<lambda>l. \<not> is_engrave_layer l \<and> \<not> is_cut_layer l) ls"
  have m: "mset ?e + mset ?c + mset ?i = mset ls"
    using mset_three_filters [of ls] by simp
  have "size (mset ?e + mset ?c + mset ?i) = size (mset ls)"
    by (simp only: m)
  then have len: "length ?e + length ?c + length ?i = length ls"
    by (simp only: size_union size_mset)
  have disj: "set ?e \<inter> set ?c = {}" "set ?e \<inter> set ?i = {}" "set ?c \<inter> set ?i = {}"
    using not_both_roles by auto
  have "split_layers ls = Inr (?e, ?c, ?i)"
    by (rule split_layers_eq)
  with m len disj have "\<exists>engrave_layers cut_layers ignored_layers. split_layers ls = Inr (engrave_layers, cut_layers, ignored_layers)
      \<and> length engrave_layers + length cut_layers + length ignored_layers = length ls
      \<and> mset engrave_layers + mset cut_layers + mset ignored_layers = mset ls
      \<and> set engrave_layers \<inter> set cut_layers = {} \<and> set engrave_layers \<inter> set ignored_layers = {}
      \<and> set cut_layers \<inter> set ignored_layers = {}"
    by blast
  moreover have "split_layers [] = Inr ([], [], [])"
    by (simp add: split_layers_eq)
  ultimately show ?thesis by blast
qed

text \<open>
  Claim C3. In the engrave bucket and in the cut bucket that \<open>split_layers\<close> returns, every
  layer has a priority, \<open>__lt__\<close> compares two layers by it, and a layer of smaller priority
  stands before every layer of larger priority. The layers of one priority stand in the order
  they have in the input: selecting them from the bucket gives the same list as selecting
  them from the input.
\<close>

theorem split_layers_order:
  assumes "split_layers ls = Inr (engrave_layers, cut_layers, ignored_layers)"
    and "(bucket, in_bucket) = (engrave_layers, is_engrave_layer) \<or> (bucket, in_bucket) = (cut_layers, is_cut_layer)"
  shows "(\<forall>i < length bucket. \<forall>j < length bucket.
            \<exists>p q. priority (bucket ! i) = Inr p \<and> priority (bucket ! j) = Inr q
              \<and> layer_lt (bucket ! i) (bucket ! j) = Inr (Bool (p < q))
              \<and> (p < q \<longrightarrow> i < j))
       \<and> (\<forall>k. filter (\<lambda>l. priority l = Inr k) bucket
              = filter (\<lambda>l. priority l = Inr k) (filter in_bucket ls))"
proof -
  let ?xs = "filter in_bucket ls"
  have role: "is_engrave_layer l \<or> is_cut_layer l" if "l \<in> set ?xs" for l
    using that assms(2) by auto
  have bucket: "bucket = sort_key sort_priority ?xs"
    using assms by (auto simp: split_layers_eq)
  have "\<exists>p q. priority (bucket ! i) = Inr p \<and> priority (bucket ! j) = Inr q
              \<and> layer_lt (bucket ! i) (bucket ! j) = Inr (Bool (p < q)) \<and> (p < q \<longrightarrow> i < j)"
    if "i < length bucket" and "j < length bucket" for i j
  proof -
    from that have "bucket ! i \<in> set ?xs" and "bucket ! j \<in> set ?xs"
      unfolding bucket by (metis nth_mem set_sort)+
    then have ri: "is_engrave_layer (bucket ! i) \<or> is_cut_layer (bucket ! i)"
      and rj: "is_engrave_layer (bucket ! j) \<or> is_cut_layer (bucket ! j)"
      using role by blast+
    have "sort_priority (bucket ! i) < sort_priority (bucket ! j) \<longrightarrow> i < j"
      using that sorted_bucket_positions [of i ?xs j] unfolding bucket by simp
    then show ?thesis
      using role_layer_priority [OF ri] role_layer_priority [OF rj] layer_lt_role_layers [OF ri rj]
      by blast
  qed
  moreover have "filter (\<lambda>l. priority l = Inr k) bucket
              = filter (\<lambda>l. priority l = Inr k) ?xs" for k
    unfolding bucket using role by (rule stable_bucket)
  ultimately show ?thesis by blast
qed

theorem split_layers_order_witness:
  "split_layers [\<lparr>ID = ''g1'', label = ''engrave-2''\<rparr>, \<lparr>ID = ''g2'', label = ''Engrave-1''\<rparr>,
                 \<lparr>ID = ''g3'', label = ''cut''\<rparr>, \<lparr>ID = ''g4'', label = ''engrave-1x2''\<rparr>,
                 \<lparr>ID = ''g5'', label = ''notes''\<rparr>]
     = Inr ([\<lparr>ID = ''g2'', label = ''Engrave-1''\<rparr>, \<lparr>ID = ''g4'', label = ''engrave-1x2''\<rparr>,
             \<lparr>ID = ''g1'', label = ''engrave-2''\<rparr>],
            [\<lparr>ID = ''g3'', label = ''cut''\<rparr>], [\<lparr>ID = ''g5'', label = ''notes''\<rparr>])
   \<and> priority \<lparr>ID = ''g4'', label = ''engrave-1x2''\<rparr> = Inr 1
   \<and> priority \<lparr>ID = ''g1'', label = ''engrave-2''\<rparr> = Inr 2
   \<and> layer_lt \<lparr>ID = ''g4'', label = ''engrave-1x2''\<rparr> \<lparr>ID = ''g1'', label = ''engrave-2''\<rparr>
       = Inr (Bool True)
   \<and> filter (\<lambda>l. priority l = Inr 1)
        [\<lparr>ID = ''g2'', label = ''Engrave-1''\<rparr>, \<lparr>ID = ''g4'', label = ''engrave-1x2''\<rparr>,
         \<lparr>ID = ''g1'', label = ''engrave-2''\<rparr>]
       = filter (\<lambda>l. priority l = Inr 1)
           (filter is_engrave_layer
             [\<lparr>ID = ''g1'', label = ''engrave-2''\<rparr>, \<lparr>ID = ''g2'', label = ''Engrave-1''\<rparr>,
              \<lparr>ID = ''g3'', label = ''cut''\<rparr>, \<lparr>ID = ''g4'', label = ''engrave-1x2''\<rparr>,
              \<lparr>ID = ''g5'', label = ''notes''\<rparr>])"
proof -
  let ?g1 = "\<lparr>ID = ''g1'', label = ''engrave-2''\<rparr>"
  let ?g2 = "\<lparr>ID = ''g2'', label = ''Engrave-1''\<rparr>"
  let ?g3 = "\<lparr>ID = ''g3'', label = ''cut''\<rparr>"
  let ?g4 = "\<lparr>ID = ''g4'', label = ''engrave-1x2''\<rparr>"
  let ?g5 = "\<lparr>ID = ''g5'', label = ''notes''\<rparr>"
  let ?ls = "[?g1, ?g2, ?g3, ?g4, ?g5]"
  let ?e = "[?g2, ?g4, ?g1]"
  have run: "split_layers ?ls = Inr (?e, [?g3], [?g5])"
    by code_simp
  have which: "(?e, is_engrave_layer) = (?e, is_engrave_layer) \<or> (?e, is_engrave_layer) = ([?g3], is_cut_layer)"
    by simp
  have p4: "priority ?g4 = Inr 1" and p1: "priority ?g1 = Inr 2"
    by code_simp+
  note order = split_layers_order [OF run which]
  have idx: "(1::nat) < length ?e" "(2::nat) < length ?e" "?e ! 1 = ?g4" "?e ! 2 = ?g1"
    by simp_all
  from order [THEN conjunct1, rule_format, OF idx(1) idx(2)]
  obtain p q where "priority (?e ! 1) = Inr p" and "priority (?e ! 2) = Inr q"
    and "layer_lt (?e ! 1) (?e ! 2) = Inr (Bool (p < q))" and "p < q \<longrightarrow> (1::nat) < 2"
    by blast
  then have lt: "layer_lt ?g4 ?g1 = Inr (Bool True)"
    using p4 p1 by (simp only: idx) simp
  from order [THEN conjunct2, rule_format, of 1]
  have stable: "filter (\<lambda>l. priority l = Inr 1) ?e
      = filter (\<lambda>l. priority l = Inr 1) (filter is_engrave_layer ?ls)" .
  from run p4 p1 lt stable show ?thesis
    by (intro conjI)
qed





text \<open>
  Claim C10. When the lower-cased label contains neither \<open>engrave\<close> nor \<open>cut\<close>, reading
  \<open>priority\<close> raises \<open>AttributeError\<close> and so does reading \<open>passes\<close>. When it contains one
  of the two words, and so whenever it starts with one, both reads return a value.
\<close>

theorem unmatched_label_raises:
  "(\<not> sublist ''engrave'' (lower (label l)) \<and> \<not> sublist ''cut'' (lower (label l))
      \<longrightarrow> priority l = Inl AttributeError \<and> passes l = Inl AttributeError)
   \<and> (sublist ''engrave'' (lower (label l)) \<or> sublist ''cut'' (lower (label l))
      \<longrightarrow> (\<exists>p. priority l = Inr p) \<and> (\<exists>n. passes l = Inr n))
   \<and> (startswith (lower (label l)) ''engrave'' \<or> startswith (lower (label l)) ''cut''
      \<longrightarrow> (\<exists>p. priority l = Inr p) \<and> (\<exists>n. passes l = Inr n))"
proof -
  have none: "priority l = Inl AttributeError \<and> passes l = Inl AttributeError"
    if "\<not> sublist ''engrave'' (lower (label l)) \<and> \<not> sublist ''cut'' (lower (label l))"
  proof -
    from that have "label_regex_search (lower (label l)) = None"
      by (simp add: search_None)
    then show ?thesis
      by (simp add: priority_of_search passes_of_search)
  qed
  have some: "(\<exists>p. priority l = Inr p) \<and> (\<exists>n. passes l = Inr n)"
    if "sublist ''engrave'' (lower (label l)) \<or> sublist ''cut'' (lower (label l))"
  proof -
    from that have "label_regex_search (lower (label l)) \<noteq> None"
      by (simp add: search_None)
    then show ?thesis
      by (auto simp: priority_of_search passes_of_search split: option.splits)
  qed
  have "sublist ''engrave'' (lower (label l)) \<or> sublist ''cut'' (lower (label l))"
    if "startswith (lower (label l)) ''engrave'' \<or> startswith (lower (label l)) ''cut''"
    using that by (auto simp: startswith_prefix intro: prefix_imp_sublist)
  with none some show ?thesis by blast
qed

theorem unmatched_label_raises_witness:
  "\<not> sublist ''engrave'' (lower (label \<lparr>ID = ''g1'', label = ''-foo''\<rparr>))
   \<and> \<not> sublist ''cut'' (lower (label \<lparr>ID = ''g1'', label = ''-foo''\<rparr>))
   \<and> priority \<lparr>ID = ''g1'', label = ''-foo''\<rparr> = Inl AttributeError
   \<and> passes \<lparr>ID = ''g1'', label = ''-foo''\<rparr> = Inl AttributeError
   \<and> sublist ''cut'' (lower (label \<lparr>ID = ''g2'', label = ''LaserCut-3''\<rparr>))
   \<and> (\<exists>p. priority \<lparr>ID = ''g2'', label = ''LaserCut-3''\<rparr> = Inr p)
   \<and> (\<exists>n. passes \<lparr>ID = ''g2'', label = ''LaserCut-3''\<rparr> = Inr n)
   \<and> startswith (lower (label \<lparr>ID = ''g3'', label = ''Engrave''\<rparr>)) ''engrave''
   \<and> (\<exists>p. priority \<lparr>ID = ''g3'', label = ''Engrave''\<rparr> = Inr p)
   \<and> (\<exists>n. passes \<lparr>ID = ''g3'', label = ''Engrave''\<rparr> = Inr n)"
proof -
  let ?a = "\<lparr>ID = ''g1'', label = ''-foo''\<rparr>"
  let ?b = "\<lparr>ID = ''g2'', label = ''LaserCut-3''\<rparr>"
  let ?c = "\<lparr>ID = ''g3'', label = ''Engrave''\<rparr>"
  have a: "\<not> sublist ''engrave'' (lower (label ?a))" "\<not> sublist ''cut'' (lower (label ?a))"
    by code_simp+
  have b: "sublist ''cut'' (lower (label ?b))"
    by code_simp
  have c: "startswith (lower (label ?c)) ''engrave''"
    by code_simp
  show ?thesis
    using unmatched_label_raises [of ?a] unmatched_label_raises [of ?b]
      unmatched_label_raises [of ?c] a b c
    by blast
qed

section \<open>The instruction compiler\<close>

text \<open>
  Claim C8. The power setter raises exactly when the power is outside the interval from 0
  to 1: for a power from 0 to 1 it returns the instruction \<open>M3 S\<close>, the integer part of the
  power mapped to the range 0 to 255, and \<open>;\<close>; for a power below 0 or above 1 it raises
  \<open>ValueError\<close> and returns no instruction.
\<close>

theorem set_laser_power_range:
  "(0 \<le> pw \<and> pw \<le> 1
      \<longrightarrow> patched_set_laser_power lib pw
            = Inr (''M3 S'' @ str_int \<lfloor>linear_map lib 0 255 pw\<rfloor> @ '';''))
   \<and> (pw < 0 \<or> 1 < pw \<longrightarrow> patched_set_laser_power lib pw = Inl ValueError)
   \<and> ((\<exists>e. patched_set_laser_power lib pw = Inl e) \<longleftrightarrow> \<not> (0 \<le> pw \<and> pw \<le> 1))"
  by (auto simp: patched_set_laser_power_def)

lemma str_int_127: "str_int 127 = ''127''"
  by code_simp

theorem set_laser_power_range_witness:
  "(0::real) \<le> 1 / 2 \<and> (1::real) / 2 \<le> 1
   \<and> patched_set_laser_power library_example (1 / 2) = Inr ''M3 S127;''
   \<and> (1::real) < 5
   \<and> patched_set_laser_power library_example 5 = Inl ValueError"
proof -
  have "\<lfloor>linear_map library_example 0 255 (1 / 2)\<rfloor> = 127"
    by (simp add: library_example_def)
  then have "patched_set_laser_power library_example (1 / 2) = Inr ''M3 S127;''"
    using set_laser_power_range [of "1 / 2" library_example] str_int_127 by simp
  moreover have "patched_set_laser_power library_example 5 = Inl ValueError"
    using set_laser_power_range [of 5 library_example] by simp
  ultimately show ?thesis by simp
qed




lemma to_gcode_no_curve:
  "\<exists>c. to_gcode lib [] = Inr c \<and> body c = []"
  by (simp add: to_gcode_def)


section \<open>The document splitter\<close>








end
